theory Spec2Isabelle
  imports Complex_Main
begin

section \<open>The stats endpoint of the hospital management API\<close>

text \<open>
  The development embeds \<^verbatim>\<open>live_stats\<close> of \<^verbatim>\<open>main.py\<close>: the two count queries
  against the document store, the arithmetic on the counts (Python integers, one float
  division, one float multiplication and one \<^verbatim>\<open>round\<close>), the returned dictionary and the
  \<^verbatim>\<open>except Exception\<close> branch with its fixed values.
\<close>

subsection \<open>Exceptions\<close>

text \<open>
  An instance of Python's \<^verbatim>\<open>Exception\<close>, which is what the \<^verbatim>\<open>except Exception\<close> clause
  of the endpoint catches. It carries the text that \<^verbatim>\<open>str(e)\<close> returns.
\<close>

datatype error = Exception string

fun str :: "error \<Rightarrow> string" where
  "str (Exception msg) = msg"

subsection \<open>Python floats\<close>

text \<open>
  A finite binary64 value is \<open>m * 2 ^ e\<close> for integers \<open>m\<close> and \<open>e\<close> with
  \<open>\<bar>m\<bar> \<le> 2 ^ 53\<close>; \<open>Finite m e\<close> stands for it. \<open>Infinity\<close> is the result of a float
  operation that overflows (of either sign: the only operation applied to it here,
  \<^verbatim>\<open>round\<close>, raises the same error for both). Not-a-number and results below the normal
  range (\<open>2 ^ -1022\<close>) are not represented: the endpoint divides an integer by 250 and
  multiplies by 100, so a result is zero or at least \<open>1 / 250\<close> in magnitude.
\<close>

datatype float = Finite int int | Infinity

text \<open>Python's \<^verbatim>\<open>int.bit_length\<close>, on a positive integer.\<close>

function bit_length :: "int \<Rightarrow> int" where
  "bit_length n = (if n \<le> 0 then 0 else 1 + bit_length (n div 2))"
  by pat_completeness auto
termination
  by (relation "measure nat") auto

text \<open>
  For \<open>n > 0\<close> and \<open>d > 0\<close>, the exponent \<open>e\<close> with \<open>2 ^ e \<le> n / d < 2 ^ (e + 1)\<close>. The
  difference \<open>k\<close> of the bit lengths is \<open>e\<close> or \<open>e + 1\<close>; one comparison decides.
\<close>

definition floor_log2 :: "int \<Rightarrow> int \<Rightarrow> int" where
  "floor_log2 n d =
     (let k = bit_length n - bit_length d in
      if (if 0 \<le> k then d * 2 ^ nat k \<le> n else d \<le> n * 2 ^ nat (- k)) then k else k - 1)"

text \<open>The integer nearest to \<open>n / d\<close> for \<open>d > 0\<close>, a tie going to the even neighbour.\<close>

definition round_half_even :: "int \<Rightarrow> int \<Rightarrow> int" where
  "round_half_even n d =
     (let q = n div d; r = n mod d in
      if 2 * r < d then q
      else if d < 2 * r then q + 1
      else if even q then q else q + 1)"

text \<open>
  Rounding the rational \<open>n / d\<close> (\<open>d > 0\<close>) to 53 significant bits, ties to even: the
  result \<open>(m, e)\<close> stands for \<open>m * 2 ^ e\<close>, the exponent unbounded.
\<close>

definition round53 :: "int \<Rightarrow> int \<Rightarrow> int \<times> int" where
  "round53 n d =
     (if n = 0 then (0, 0)
      else
        let a = \<bar>n\<bar>;
            e = floor_log2 a d - 52;
            m = (if 0 \<le> e then round_half_even a (d * 2 ^ nat e)
                 else round_half_even (a * 2 ^ nat (- e)) d)
        in (sgn n * m, e))"

text \<open>A rounded result overflows when its magnitude reaches \<open>2 ^ 1024\<close>.\<close>

definition overflows :: "int \<times> int \<Rightarrow> bool" where
  "overflows me = (case me of (m, e) \<Rightarrow> 0 \<le> e \<and> 2 ^ 1024 \<le> \<bar>m\<bar> * 2 ^ nat e)"

text \<open>
  \<^verbatim>\<open>a / b\<close> on two Python integers: the correctly rounded quotient, \<^verbatim>\<open>ZeroDivisionError\<close>
  for a zero divisor and \<^verbatim>\<open>OverflowError\<close> for a quotient beyond the floats.
\<close>

definition py_truediv :: "int \<Rightarrow> int \<Rightarrow> error + float" where
  "py_truediv a b =
     (if b = 0 then Inl (Exception ''division by zero'')
      else
        let me = round53 (a * sgn b) \<bar>b\<bar> in
        if overflows me then Inl (Exception ''integer division result too large for a float'')
        else Inr (Finite (fst me) (snd me)))"

text \<open>
  \<^verbatim>\<open>x * k\<close> for a float \<open>x\<close> and a Python integer \<open>k\<close> that is a float exactly
  (\<open>\<bar>k\<bar> \<le> 2 ^ 53\<close>; here \<open>k = 100\<close>). An overflow gives infinity and raises nothing.
\<close>

fun float_mul :: "float \<Rightarrow> int \<Rightarrow> float" where
  "float_mul (Finite m e) k =
     (let me = round53 (m * k) 1 in
      if overflows (fst me, snd me + e) then Infinity else Finite (fst me) (snd me + e))"
| "float_mul Infinity k = Infinity"

text \<open>
  \<^verbatim>\<open>round(x)\<close> with one argument: the nearest integer, ties to even, and \<^verbatim>\<open>OverflowError\<close>
  on an infinity.
\<close>

fun py_round :: "float \<Rightarrow> error + int" where
  "py_round (Finite m e) =
     Inr (if 0 \<le> e then m * 2 ^ nat e else round_half_even m (2 ^ nat (- e)))"
| "py_round Infinity = Inl (Exception ''cannot convert float infinity to integer'')"

subsection \<open>The document store\<close>

text \<open>
  The module \<^verbatim>\<open>database\<close> that provides the global \<^verbatim>\<open>db\<close> is not part of the sources, so
  the handle is a parameter of the endpoint. \<^verbatim>\<open>db\<close> is \<^verbatim>\<open>None\<close> or a database object; the
  endpoint uses the object in two ways: its truth value (\<^verbatim>\<open>... if db else 0\<close>), which is
  whatever the object's class makes of \<^verbatim>\<open>bool(db)\<close> and may raise, and
  \<^verbatim>\<open>db[collection].count_documents(filter)\<close>, which returns an integer or raises.
\<close>

datatype query = On_duty bool | Date string

record store =
  truth :: "error + bool"
  count_documents :: "string \<Rightarrow> query \<Rightarrow> error + int"

text \<open>\<^verbatim>\<open>db[collection].count_documents(filter) if db else 0\<close>\<close>

fun count_or_zero :: "store option \<Rightarrow> string \<Rightarrow> query \<Rightarrow> error + int" where
  "count_or_zero None collection q = Inr 0"
| "count_or_zero (Some db) collection q =
     (case truth db of
        Inl e \<Rightarrow> Inl e
      | Inr b \<Rightarrow> if b then count_documents db collection q else Inr 0)"

subsection \<open>The endpoint\<close>

text \<open>
  The returned dictionary: the keys \<^verbatim>\<open>wait\<close>, \<^verbatim>\<open>beds\<close>, \<^verbatim>\<open>doctors\<close> and \<^verbatim>\<open>activity\<close>, and
  \<^verbatim>\<open>note\<close>, which only the \<^verbatim>\<open>except\<close> branch sets.
\<close>

record snapshot =
  wait :: int
  beds :: int
  doctors :: int
  activity :: int
  "note" :: "string option"

definition total_beds :: int where
  "total_beds = 250"

definition occupied_beds :: "int \<Rightarrow> int" where
  "occupied_beds doctors_count = min total_beds (150 + (doctors_count div 2) * 3)"

text \<open>\<^verbatim>\<open>round((occupied_beds / total_beds) * 100)\<close>\<close>

definition bed_pct :: "int \<Rightarrow> error + int" where
  "bed_pct occupied =
     (case py_truediv occupied total_beds of
        Inl e \<Rightarrow> Inl e
      | Inr ratio \<Rightarrow> py_round (float_mul ratio 100))"

definition wait_min :: "int \<Rightarrow> int \<Rightarrow> int" where
  "wait_min doctors_count todays_appts =
     max 5 (min 45 (10 + todays_appts div 3 - doctors_count div 5))"

definition activity_score :: "int \<Rightarrow> int \<Rightarrow> int" where
  "activity_score doctors_count todays_appts =
     max 40 (min 95 (60 + doctors_count * 2 - todays_appts div 4))"

text \<open>\<^verbatim>\<open>max(12, doctors_count or 24)\<close>: \<^verbatim>\<open>or\<close> takes its right operand when the left is zero.\<close>

definition doctors_shown :: "int \<Rightarrow> int" where
  "doctors_shown doctors_count = max 12 (if doctors_count \<noteq> 0 then doctors_count else 24)"

text \<open>
  The body of the \<^verbatim>\<open>try\<close> block, statement by statement; \<open>today\<close> is the ISO date that
  \<^verbatim>\<open>datetime.utcnow().date().isoformat()\<close> returns at the call. The first statement that
  raises ends the block.
\<close>

definition try_block :: "store option \<Rightarrow> string \<Rightarrow> error + snapshot" where
  "try_block db today =
     (case count_or_zero db ''doctor'' (On_duty True) of
        Inl e \<Rightarrow> Inl e
      | Inr doctors_count \<Rightarrow>
     (case bed_pct (occupied_beds doctors_count) of
        Inl e \<Rightarrow> Inl e
      | Inr pct \<Rightarrow>
     (case count_or_zero db ''appointment'' (Date today) of
        Inl e \<Rightarrow> Inl e
      | Inr todays_appts \<Rightarrow>
          Inr \<lparr>wait = wait_min doctors_count todays_appts,
               beds = pct,
               doctors = doctors_shown doctors_count,
               activity = activity_score doctors_count todays_appts,
               note = None\<rparr>)))"

text \<open>The \<^verbatim>\<open>except Exception as e\<close> branch.\<close>

definition fallback :: "error \<Rightarrow> snapshot" where
  "fallback e = \<lparr>wait = 15, beds = 82, doctors = 24, activity = 70, note = Some (str e)\<rparr>"

text \<open>
  The endpoint. Its result type has room for an exception that leaves the function
  (\<open>Inl\<close>); the handler turns every exception of the block into a returned value.
\<close>

definition live_stats :: "store option \<Rightarrow> string \<Rightarrow> error + snapshot" where
  "live_stats db today =
     (case try_block db today of
        Inr s \<Rightarrow> Inr s
      | Inl e \<Rightarrow> Inr (fallback e))"

subsection \<open>A store for concrete runs\<close>

text \<open>
  An in-memory stand-in for the database object: it is true as a condition, answers the
  on-duty query with \<open>d\<close> and the date query with \<open>a\<close>, each a count or a raised error.
\<close>

definition store_of :: "error + int \<Rightarrow> error + int \<Rightarrow> store" where
  "store_of d a =
     \<lparr>truth = Inr True,
      count_documents = (\<lambda>collection q. case q of On_duty b \<Rightarrow> d | Date t \<Rightarrow> a)\<rparr>"

subsection \<open>The specification's reading\<close>

text \<open>
  The two counts that a run of the endpoint obtains: \<open>D\<close> on-duty doctors and \<open>A\<close>
  appointments today.
\<close>

definition counts_are :: "store option \<Rightarrow> string \<Rightarrow> int \<Rightarrow> int \<Rightarrow> bool" where
  "counts_are db today D A =
     (count_or_zero db ''doctor'' (On_duty True) = Inr D \<and>
      count_or_zero db ''appointment'' (Date today) = Inr A)"

text \<open>A count, when the query returns one, is not negative.\<close>

definition nonneg_count :: "error + int \<Rightarrow> bool" where
  "nonneg_count r = (case r of Inl e \<Rightarrow> True | Inr n \<Rightarrow> 0 \<le> n)"

text \<open>The clamp ranges of the four fields of a snapshot.\<close>

definition well_formed :: "snapshot \<Rightarrow> bool" where
  "well_formed s =
     (5 \<le> wait s \<and> wait s \<le> 45 \<and> 0 \<le> beds s \<and> beds s \<le> 100 \<and>
      12 \<le> doctors s \<and> 40 \<le> activity s \<and> activity s \<le> 95)"

text \<open>
  The reference algorithm, in the specification's words: floor division, one clamp
  after the arithmetic of each field, and the percentage rounded from the exact
  quotient (\<open>round\<close> sends a half upwards; no half arises from an integer number of
  beds).
\<close>

definition clamp :: "int \<Rightarrow> int \<Rightarrow> int \<Rightarrow> int" where
  "clamp x low high = (if x < low then low else if high < x then high else x)"

definition reference_occupied :: "int \<Rightarrow> int" where
  "reference_occupied D = min 250 (150 + (D div 2) * 3)"

definition reference_snapshot :: "int \<Rightarrow> int \<Rightarrow> snapshot" where
  "reference_snapshot D A =
     \<lparr>wait = clamp (10 + A div 3 - D div 5) 5 45,
      beds = round (of_int (reference_occupied D) / 250 * 100 :: rat),
      doctors = max 12 (if D \<noteq> 0 then D else 24),
      activity = clamp (60 + D * 2 - A div 4) 40 95,
      note = None\<rparr>"

section \<open>Properties\<close>

subsection \<open>The bed percentage\<close>

text \<open>
  With no negative count the number of occupied beds is 250 or one of the 34 values
  \<open>150 + 3 * k\<close>; on each of them the float computation is evaluated, and it returns the
  integer nearest to the exact percentage.
\<close>

text \<open>
  The float operations at the bed count 186: the quotient \<^verbatim>\<open>186 / 250\<close> is the float
  \<^verbatim>\<open>0x1.7ced916872b02p-1\<close> and its product with 100 is \<^verbatim>\<open>0x1.299999999999ap+6\<close>, just
  above 74.4.
\<close>

lemma py_truediv_186_250: "py_truediv 186 250 = Inr (Finite 0x17ced916872b02 (- 53))"
  by code_simp

lemma float_mul_186_250_100:
  "float_mul (Finite 0x17ced916872b02 (- 53)) 100 = Finite 0x1299999999999a (- 46)"
  by code_simp

lemma bed_pct_table:
  "\<forall>k\<in>set [0..33]. bed_pct (150 + 3 * k) = Inr ((4 * (150 + 3 * k) + 5) div 10)"
  by code_simp

lemma bed_pct_full: "bed_pct 250 = Inr 100"
  by code_simp

lemma round_exact: "round (of_int occ / 250 * 100 :: rat) = (4 * occ + 5) div 10"
proof -
  have "(of_int occ / 250 * 100 :: rat) + 1 / 2 = of_int (4 * occ + 5) / of_int 10"
    by simp
  then show ?thesis
    unfolding round_def by (simp only: floor_divide_of_int_eq)
qed

lemma occupied_cases:
  assumes "0 \<le> D"
  shows "occupied_beds D = 250 \<or> (\<exists>k\<in>set [0..33]. occupied_beds D = 150 + 3 * k)"
proof (cases "34 \<le> D div 2")
  case True
  then show ?thesis by (simp add: occupied_beds_def total_beds_def)
next
  case False
  with assms have "D div 2 \<in> set [0..33]" by simp
  moreover from False have "occupied_beds D = 150 + 3 * (D div 2)"
    by (simp add: occupied_beds_def total_beds_def)
  ultimately show ?thesis by blast
qed

lemma bed_pct_occupied:
  assumes "0 \<le> D"
  shows "bed_pct (occupied_beds D) = Inr ((4 * occupied_beds D + 5) div 10)"
  using occupied_cases [OF assms] bed_pct_table bed_pct_full by auto

lemma occupied_bounds:
  assumes "0 \<le> D"
  shows "150 \<le> occupied_beds D" and "occupied_beds D \<le> 250"
  using assms by (simp_all add: occupied_beds_def total_beds_def)

subsection \<open>The run that obtains both counts\<close>

lemma live_stats_success:
  assumes "counts_are db today D A" and "bed_pct (occupied_beds D) = Inr p"
  shows "live_stats db today =
    Inr \<lparr>wait = wait_min D A, beds = p, doctors = doctors_shown D,
         activity = activity_score D A, note = None\<rparr>"
  using assms by (simp add: live_stats_def try_block_def counts_are_def)

lemma live_stats_counts:
  assumes "counts_are db today D A" and "0 \<le> D"
  shows "live_stats db today =
    Inr \<lparr>wait = wait_min D A, beds = (4 * occupied_beds D + 5) div 10,
         doctors = doctors_shown D, activity = activity_score D A, note = None\<rparr>"
  using live_stats_success [OF assms(1) bed_pct_occupied [OF assms(2)]] .

lemma counts_store_of: "counts_are (Some (store_of (Inr D) (Inr A))) today D A"
  by (simp add: counts_are_def store_of_def)

lemma counts_None: "counts_are None today 0 0"
  by (simp add: counts_are_def)

subsection \<open>The run in which a query raises\<close>

lemma live_stats_first_error:
  assumes "count_or_zero db ''doctor'' (On_duty True) = Inl e"
  shows "live_stats db today = Inr (fallback e)"
  using assms by (simp add: live_stats_def try_block_def)

lemma live_stats_second_error:
  assumes "count_or_zero db ''doctor'' (On_duty True) = Inr D" and "0 \<le> D"
    and "count_or_zero db ''appointment'' (Date today) = Inl e"
  shows "live_stats db today = Inr (fallback e)"
  using assms bed_pct_occupied [OF assms(2)] by (simp add: live_stats_def try_block_def)

lemma well_formed_fallback: "well_formed (fallback e)"
  by (simp add: well_formed_def fallback_def)

subsection \<open>The claims\<close>

text \<open>
  C1. For non-negative counts \<open>D\<close> and \<open>A\<close>, the run that obtains them returns a snapshot
  without a note whose fields are in range: the wait between 5 and 45, the bed
  percentage between 0 and 100, at least 12 doctors, the activity between 40 and 95.
\<close>

theorem snapshot_in_ranges:
  assumes "0 \<le> D" and "0 \<le> A" and "counts_are db today D A"
  shows "\<exists>s. live_stats db today = Inr s \<and> note s = None \<and>
    5 \<le> wait s \<and> wait s \<le> 45 \<and> 0 \<le> beds s \<and> beds s \<le> 100 \<and>
    12 \<le> doctors s \<and> 40 \<le> activity s \<and> activity s \<le> 95"
proof -
  have "0 \<le> (4 * occupied_beds D + 5) div 10" and "(4 * occupied_beds D + 5) div 10 \<le> 100"
    using occupied_bounds [OF assms(1)] by linarith+
  then show ?thesis
    unfolding live_stats_counts [OF assms(3) assms(1)]
    by (simp add: wait_min_def activity_score_def doctors_shown_def)
qed

theorem snapshot_in_ranges_witness:
  "\<exists>s. live_stats (Some (store_of (Inr 3) (Inr 50))) ''2024-01-01'' = Inr s \<and> note s = None \<and>
    5 \<le> wait s \<and> wait s \<le> 45 \<and> 0 \<le> beds s \<and> beds s \<le> 100 \<and>
    12 \<le> doctors s \<and> 40 \<le> activity s \<and> activity s \<le> 95"
  using snapshot_in_ranges [of 3 50 "Some (store_of (Inr 3) (Inr 50))" "''2024-01-01''"]
    counts_store_of [of 3 50 "''2024-01-01''"]
  by simp

text \<open>
  C2. For non-negative counts \<open>D\<close> and \<open>A\<close>, the run that obtains them returns the
  snapshot of the reference algorithm: occupied beds \<open>min 250 (150 + (D div 2) * 3)\<close>,
  the percentage rounded from the exact quotient, the wait and the activity clamped after
  their arithmetic, and the doctors \<open>max 12 (D if D \<noteq> 0 else 24)\<close>.
\<close>

theorem matches_reference:
  assumes "0 \<le> D" and "0 \<le> A" and "counts_are db today D A"
  shows "live_stats db today = Inr (reference_snapshot D A)"
proof -
  have "wait_min D A = clamp (10 + A div 3 - D div 5) 5 45"
    by (simp add: wait_min_def clamp_def)
  moreover have "activity_score D A = clamp (60 + D * 2 - A div 4) 40 95"
    by (simp add: activity_score_def clamp_def)
  moreover have "reference_occupied D = occupied_beds D"
    by (simp add: reference_occupied_def occupied_beds_def total_beds_def)
  then have "round (of_int (reference_occupied D) / 250 * 100 :: rat) =
      (4 * occupied_beds D + 5) div 10"
    by (simp only: round_exact)
  ultimately show ?thesis
    unfolding live_stats_counts [OF assms(3) assms(1)] reference_snapshot_def doctors_shown_def
    by simp
qed

theorem matches_reference_witness:
  "live_stats (Some (store_of (Inr 100) (Inr 0))) ''2024-01-01'' = Inr (reference_snapshot 100 0) \<and>
   reference_snapshot 100 0 = \<lparr>wait = 5, beds = 100, doctors = 100, activity = 95, note = None\<rparr>"
proof -
  have "reference_snapshot 100 0 =
      \<lparr>wait = 5, beds = 100, doctors = 100, activity = 95, note = None\<rparr>"
    by (simp add: reference_snapshot_def reference_occupied_def clamp_def round_exact)
  then show ?thesis
    using matches_reference [of 100 0 "Some (store_of (Inr 100) (Inr 0))" "''2024-01-01''"]
      counts_store_of [of 100 0 "''2024-01-01''"]
    by simp
qed

text \<open>
  C3 (as amended). When the truth test of the handle or the on-duty query raises \<open>e\<close>, or
  the on-duty query returns a count \<open>D \<ge> 0\<close> and the date query raises \<open>e\<close>, the endpoint
  returns the fixed values 15, 82, 24 and 70 with a note that is \<open>str(e)\<close>, whole.
\<close>

theorem store_error_fallback:
  assumes "count_or_zero db ''doctor'' (On_duty True) = Inl e \<or>
    count_or_zero db ''doctor'' (On_duty True) = Inr D \<and> 0 \<le> D \<and>
    count_or_zero db ''appointment'' (Date today) = Inl e"
  shows "live_stats db today =
    Inr \<lparr>wait = 15, beds = 82, doctors = 24, activity = 70, note = Some (str e)\<rparr>"
  using assms live_stats_first_error live_stats_second_error
  by (auto simp add: fallback_def)

theorem store_error_fallback_witness:
  "live_stats (Some (store_of (Inr 24) (Inl (Exception ''timed out'')))) ''2024-01-01'' =
   Inr \<lparr>wait = 15, beds = 82, doctors = 24, activity = 70, note = Some ''timed out''\<rparr>"
  using store_error_fallback [of "Some (store_of (Inr 24) (Inl (Exception ''timed out'')))"
      "Exception ''timed out''" 24 "''2024-01-01''"]
  by (simp add: store_of_def)

text \<open>
  C3 as stated fails: the note is not always non-empty and is not truncated. An error
  whose text is empty gives the empty note, and one whose text has 120 characters (more
  than the 80 that the \<^verbatim>\<open>/test\<close> endpoint keeps of its errors) gives all 120.
\<close>

theorem note_counterexample:
  "count_or_zero (Some (store_of (Inl (Exception [])) (Inr 0))) ''doctor'' (On_duty True) =
     Inl (Exception []) \<and>
   live_stats (Some (store_of (Inl (Exception [])) (Inr 0))) ''2024-01-01'' =
     Inr \<lparr>wait = 15, beds = 82, doctors = 24, activity = 70, note = Some []\<rparr> \<and>
   live_stats (Some (store_of (Inl (Exception (replicate 120 CHR ''x''))) (Inr 0)))
       ''2024-01-01'' =
     Inr \<lparr>wait = 15, beds = 82, doctors = 24, activity = 70,
          note = Some (replicate 120 CHR ''x'')\<rparr>"
  by (simp add: live_stats_def try_block_def store_of_def fallback_def)

text \<open>
  C4 (as amended). With no database handle (\<^verbatim>\<open>db\<close> is \<^verbatim>\<open>None\<close>) nothing is raised: both
  counts are taken as 0 and the endpoint returns the snapshot computed from them, the
  wait 10, the beds 60, the doctors 24 and the activity 60, without a note.
\<close>

theorem uninitialised_store:
  "live_stats None today =
     Inr \<lparr>wait = 10, beds = 60, doctors = 24, activity = 60, note = None\<rparr>"
proof -
  have "live_stats None today =
    Inr \<lparr>wait = wait_min 0 0, beds = (4 * occupied_beds 0 + 5) div 10,
         doctors = doctors_shown 0, activity = activity_score 0 0, note = None\<rparr>"
    by (rule live_stats_counts [OF counts_None]) simp
  then show ?thesis
    by (simp add: wait_min_def occupied_beds_def total_beds_def doctors_shown_def
        activity_score_def)
qed

text \<open>
  C4 as stated fails: without a handle the endpoint does not return the fixed values
  15, 82, 24, 70 and a note.
\<close>

theorem uninitialised_counterexample:
  "live_stats None ''2024-01-01'' =
     Inr \<lparr>wait = 10, beds = 60, doctors = 24, activity = 60, note = None\<rparr>"
  by code_simp

text \<open>
  C5. Whatever the store does (the truth test and each query return or raise; a count
  that the on-duty query returns is not negative), the endpoint returns a snapshot and
  raises nothing, and the snapshot, computed or fixed, has its four fields in range.
\<close>

theorem never_raises:
  assumes "nonneg_count (count_or_zero db ''doctor'' (On_duty True))"
  shows "\<exists>s. live_stats db today = Inr s \<and> well_formed s"
proof (cases "count_or_zero db ''doctor'' (On_duty True)")
  case (Inl e)
  then show ?thesis
    using live_stats_first_error well_formed_fallback by simp
next
  case (Inr D)
  with assms have D: "0 \<le> D" by (simp add: nonneg_count_def)
  show ?thesis
  proof (cases "count_or_zero db ''appointment'' (Date today)")
    case (Inl e)
    then show ?thesis
      using live_stats_second_error [OF Inr D] well_formed_fallback by simp
  next
    case A: (Inr A)
    have counts: "counts_are db today D A"
      using Inr A by (simp add: counts_are_def)
    have "0 \<le> (4 * occupied_beds D + 5) div 10"
      and "(4 * occupied_beds D + 5) div 10 \<le> 100"
      using occupied_bounds [OF D] by linarith+
    then show ?thesis
      unfolding live_stats_counts [OF counts D]
      by (simp add: well_formed_def wait_min_def activity_score_def doctors_shown_def)
  qed
qed

theorem never_raises_witness:
  "\<exists>s. live_stats (Some (store_of (Inr 30) (Inl (Exception ''connection refused''))))
       ''2024-01-01'' = Inr s \<and> well_formed s"
  using never_raises [of "Some (store_of (Inr 30) (Inl (Exception ''connection refused'')))"
      "''2024-01-01''"]
  by (simp add: nonneg_count_def store_of_def)

text \<open>
  C6. In the run that obtains a count \<open>D \<ge> 0\<close> of on-duty doctors, the doctors field is
  24 only for \<open>D = 0\<close>; it is 12 for \<open>D\<close> from 1 to 11 and \<open>D\<close> itself from 12 on.
\<close>

theorem doctors_substitution:
  assumes "0 \<le> D" and "counts_are db today D A"
  shows "\<exists>s. live_stats db today = Inr s \<and>
    (D = 0 \<longrightarrow> doctors s = 24) \<and>
    (1 \<le> D \<and> D \<le> 11 \<longrightarrow> doctors s = 12) \<and>
    (12 \<le> D \<longrightarrow> doctors s = D)"
  unfolding live_stats_counts [OF assms(2) assms(1)]
  by (simp add: doctors_shown_def)

theorem doctors_substitution_witness:
  "\<exists>s. live_stats (Some (store_of (Inr 7) (Inr 2))) ''2024-01-01'' = Inr s \<and> doctors s = 12"
  using doctors_substitution [of 7 "Some (store_of (Inr 7) (Inr 2))" "''2024-01-01''" 2]
    counts_store_of [of 7 2 "''2024-01-01''"]
  by simp

text \<open>
  C7. With 24 on-duty doctors and 9 appointments today, 186 beds are occupied, the bed
  percentage is 74, the wait 9, the activity 95 (the clamp of 106) and the doctors 24.
\<close>

theorem example_24_9:
  assumes "counts_are db today 24 9"
  shows "occupied_beds 24 = 186 \<and> bed_pct 186 = Inr 74 \<and>
    60 + 24 * 2 - 9 div 4 = (106::int) \<and>
    live_stats db today =
      Inr \<lparr>wait = 9, beds = 74, doctors = 24, activity = 95, note = None\<rparr>"
proof -
  have occ: "occupied_beds 24 = 186"
    by (simp add: occupied_beds_def total_beds_def)
  have pct: "bed_pct 186 = Inr 74"
    using bed_pct_occupied [of 24] by (simp add: occ)
  have "live_stats db today =
    Inr \<lparr>wait = wait_min 24 9, beds = 74, doctors = doctors_shown 24,
         activity = activity_score 24 9, note = None\<rparr>"
    using live_stats_success [OF assms] pct by (simp add: occ)
  then show ?thesis
    using occ pct by (simp add: wait_min_def doctors_shown_def activity_score_def)
qed

theorem example_24_9_witness:
  "live_stats (Some (store_of (Inr 24) (Inr 9))) ''2024-01-01'' =
     Inr \<lparr>wait = 9, beds = 74, doctors = 24, activity = 95, note = None\<rparr>"
  using example_24_9 [of "Some (store_of (Inr 24) (Inr 9))" "''2024-01-01''"]
    counts_store_of [of 24 9 "''2024-01-01''"]
  by simp

text \<open>
  C8. With no on-duty doctor and no appointment today, 150 beds are occupied, the bed
  percentage is 60, the wait 10, the activity 60 and the doctors 24.
\<close>

theorem example_0_0:
  assumes "counts_are db today 0 0"
  shows "occupied_beds 0 = 150 \<and> bed_pct 150 = Inr 60 \<and>
    live_stats db today =
      Inr \<lparr>wait = 10, beds = 60, doctors = 24, activity = 60, note = None\<rparr>"
proof -
  have occ: "occupied_beds 0 = 150"
    by (simp add: occupied_beds_def total_beds_def)
  have pct: "bed_pct 150 = Inr 60"
    using bed_pct_occupied [of 0] by (simp add: occ)
  have "live_stats db today =
    Inr \<lparr>wait = wait_min 0 0, beds = 60, doctors = doctors_shown 0,
         activity = activity_score 0 0, note = None\<rparr>"
    using live_stats_success [OF assms] pct by (simp add: occ)
  then show ?thesis
    using occ pct by (simp add: wait_min_def doctors_shown_def activity_score_def)
qed

theorem example_0_0_witness:
  "live_stats (Some (store_of (Inr 0) (Inr 0))) ''2024-01-01'' =
     Inr \<lparr>wait = 10, beds = 60, doctors = 24, activity = 60, note = None\<rparr>"
  using example_0_0 [of "Some (store_of (Inr 0) (Inr 0))" "''2024-01-01''"]
    counts_store_of [of 0 0 "''2024-01-01''"]
  by simp

text \<open>
  C10. In the run that obtains a count \<open>D \<ge> 0\<close> of on-duty doctors, at least 150 beds are
  occupied and the bed percentage is at least 60.
\<close>

theorem beds_at_least_60:
  assumes "0 \<le> D" and "counts_are db today D A"
  shows "150 \<le> occupied_beds D \<and> (\<exists>s. live_stats db today = Inr s \<and> 60 \<le> beds s)"
proof -
  have "60 \<le> (4 * occupied_beds D + 5) div 10"
    using occupied_bounds(1) [OF assms(1)] by linarith
  then show ?thesis
    unfolding live_stats_counts [OF assms(2) assms(1)]
    using occupied_bounds(1) [OF assms(1)] by simp
qed

theorem beds_at_least_60_witness:
  "150 \<le> occupied_beds 1 \<and>
   (\<exists>s. live_stats (Some (store_of (Inr 1) (Inr 40))) ''2024-01-01'' = Inr s \<and> 60 \<le> beds s)"
  using beds_at_least_60 [of 1 "Some (store_of (Inr 1) (Inr 40))" "''2024-01-01''" 40]
    counts_store_of [of 1 40 "''2024-01-01''"]
  by simp

end
